theory Spec2Isabelle
  imports Main "HOL-Library.Char_ord" "HOL-Library.List_Lexorder" "HOL-Library.AList"
begin

section \<open>Strings\<close>

text \<open>
  A Python \<open>str\<close> is a sequence of code points. A \<^typ>\<open>char\<close> stands for a code point
  below 256 here, so the model covers the strings of that range; \<^const>\<open>length\<close> and
  \<^const>\<open>take\<close> count code points as Python's \<open>len\<close> and slicing do.
\<close>

definition lower_char :: "char \<Rightarrow> char" where
  \<comment> \<open>\<open>str.lower\<close> on one code point below 256: A-Z and the upper-case letters of
      U+00C0..U+00DE (U+00D7 is the multiplication sign) move up by 32.\<close>
  "lower_char c =
     (let n = (of_char c :: nat)
      in if (65 \<le> n \<and> n \<le> 90) \<or> (192 \<le> n \<and> n \<le> 222 \<and> n \<noteq> 215)
         then char_of (n + 32) else c)"

definition lower :: "string \<Rightarrow> string" where
  "lower s = map lower_char s"

definition isspace :: "char \<Rightarrow> bool" where
  \<comment> \<open>what \<open>str.strip()\<close> removes: U+0009..U+000D, U+001C..U+0020, U+0085, U+00A0\<close>
  "isspace c =
     (let n = (of_char c :: nat)
      in (9 \<le> n \<and> n \<le> 13) \<or> (28 \<le> n \<and> n \<le> 32) \<or> n = 133 \<or> n = 160)"

definition strip :: "string \<Rightarrow> string" where
  "strip s = rev (dropWhile isspace (rev (dropWhile isspace s)))"

definition safe_char :: "char \<Rightarrow> bool" where
  \<comment> \<open>the character class \<open>[a-z0-9\-_]\<close>\<close>
  "safe_char c =
     (let n = (of_char c :: nat)
      in (97 \<le> n \<and> n \<le> 122) \<or> (48 \<le> n \<and> n \<le> 57) \<or> c = CHR ''-'' \<or> c = CHR ''_'')"

definition sub_unsafe :: "string \<Rightarrow> string" where
  \<comment> \<open>\<open>re.sub(r'[^a-z0-9\-_]', '-', name)\<close>\<close>
  "sub_unsafe s = map (\<lambda>c. if safe_char c then c else CHR ''-'') s"

fun sub_dashes :: "string \<Rightarrow> string" where
  \<comment> \<open>\<open>re.sub(r'-+', '-', name)\<close>: every maximal run of dashes becomes one dash\<close>
  "sub_dashes (c # d # cs) =
     (if c = CHR ''-'' \<and> d = CHR ''-'' then sub_dashes (d # cs) else c # sub_dashes (d # cs))"
| "sub_dashes cs = cs"

definition sanitize_filename :: "string \<Rightarrow> string" where
  "sanitize_filename name =
     (let name = strip (lower name);
          name = sub_unsafe name;
          name = sub_dashes name
      in take 50 name)"

fun str_nat :: "nat \<Rightarrow> string" where
  "str_nat n =
     (if n < 10 then [char_of (48 + n)] else str_nat (n div 10) @ [char_of (48 + n mod 10)])"

declare str_nat.simps [simp del]

definition str_int :: "int \<Rightarrow> string" where
  \<comment> \<open>how an f-string prints an \<open>int\<close>\<close>
  "str_int i = (if i < 0 then CHR ''-'' # str_nat (nat (- i)) else str_nat (nat i))"

definition py_or :: "string option \<Rightarrow> string \<Rightarrow> string" where
  \<comment> \<open>\<open>s or d\<close> for an optional string: \<open>None\<close> and \<open>""\<close> are falsy\<close>
  "py_or s d = (case s of None \<Rightarrow> d | Some v \<Rightarrow> if v = [] then d else v)"

definition name_part :: "string option \<Rightarrow> string" where
  "name_part name = sanitize_filename (py_or name ''unnamed'')"

definition sex_part :: "string option \<Rightarrow> string" where
  \<comment> \<open>\<open>(sex or "unknown")[0].lower()\<close>; the index is in range, as \<open>or\<close> never
      yields the empty string here\<close>
  "sex_part sex = lower (take 1 (py_or sex ''unknown''))"

definition get_eval_filename :: "string option \<Rightarrow> int \<Rightarrow> string option \<Rightarrow> string" where
  "get_eval_filename name age sex =
     name_part name @ ''_'' @ str_int age @ ''_'' @ sex_part sex @ ''.json''"

section \<open>Documents\<close>

datatype pyfloat = Finite int int | PosInf | NegInf | NaN

text \<open>
  What \<open>json.load\<close> returns. A dict is an association list with one binding for each
  key; its order is the dict's insertion order.
\<close>

datatype json =
    JNull
  | JBool bool
  | JInt int
  | JFloat pyfloat
  | JStr string
  | JArr "json list"
  | JObj "(string \<times> json) list"

datatype error =
    HTTPException nat string
  | OSError
  | ValueError
  | JSONDecodeError
  | AttributeError
  | TypeError
  | ValidationError

definition dict_get :: "(string \<times> json) list \<Rightarrow> string \<Rightarrow> json \<Rightarrow> json" where
  \<comment> \<open>\<open>data.get(key, default)\<close>\<close>
  "dict_get kvs k d = (case map_of kvs k of None \<Rightarrow> d | Some v \<Rightarrow> v)"

fun py_len :: "json \<Rightarrow> error + nat" where
  "py_len (JObj kvs) = Inr (length kvs)"
| "py_len (JArr xs) = Inr (length xs)"
| "py_len (JStr s) = Inr (length s)"
| "py_len _ = Inl TypeError"

fun opt_str :: "string option \<Rightarrow> json" where
  "opt_str None = JNull"
| "opt_str (Some s) = JStr s"

fun opt_int :: "int option \<Rightarrow> json" where
  "opt_int None = JNull"
| "opt_int (Some i) = JInt i"

record Evaluation =
  eval_id :: string
  created_at :: string
  updated_at :: string
  person_name :: "string option"
  person_age :: "int option"
  person_sex :: "string option"
  measurements :: "(string \<times> json) list"
  eval_notes :: "string option"

definition dict :: "Evaluation \<Rightarrow> (string \<times> json) list" where
  \<comment> \<open>\<open>evaluation.dict()\<close>: the fields in declaration order\<close>
  "dict ev =
     [(''id'', JStr (eval_id ev)),
      (''created_at'', JStr (created_at ev)),
      (''updated_at'', JStr (updated_at ev)),
      (''person_name'', opt_str (person_name ev)),
      (''person_age'', opt_int (person_age ev)),
      (''person_sex'', opt_str (person_sex ev)),
      (''measurements'', JObj (measurements ev)),
      (''notes'', opt_str (eval_notes ev))]"

record EvaluationSummary =
  filename :: string
  name :: string
  age :: "int option"
  sex :: "string option"
  measurement_count :: nat
  summary_updated_at :: string

text \<open>
  The fields of \<open>EvaluationSummary\<close> are validated when the summary is built. A
  \<open>str\<close> field takes a string as it is and rejects \<open>None\<close>; an \<open>Optional\<close> field takes
  \<open>None\<close>; an \<open>int\<close> field takes an integer as it is. Whether a value of another type
  is converted or rejected differs between the validation library's versions, so the
  conversions are parameters: \<open>None\<close> is a rejection.
\<close>

record coercions =
  coerce_str :: "json \<Rightarrow> string option"
  coerce_int :: "json \<Rightarrow> int option"

definition str_field :: "coercions \<Rightarrow> json \<Rightarrow> error + string" where
  "str_field p v =
     (case v of
        JStr s \<Rightarrow> Inr s
      | JNull \<Rightarrow> Inl ValidationError
      | _ \<Rightarrow> (case coerce_str p v of None \<Rightarrow> Inl ValidationError | Some s \<Rightarrow> Inr s))"

definition opt_str_field :: "coercions \<Rightarrow> json \<Rightarrow> error + string option" where
  "opt_str_field p v =
     (case v of
        JNull \<Rightarrow> Inr None
      | _ \<Rightarrow> (case str_field p v of Inl e \<Rightarrow> Inl e | Inr s \<Rightarrow> Inr (Some s)))"

definition opt_int_field :: "coercions \<Rightarrow> json \<Rightarrow> error + int option" where
  "opt_int_field p v =
     (case v of
        JNull \<Rightarrow> Inr None
      | JInt i \<Rightarrow> Inr (Some i)
      | _ \<Rightarrow> (case coerce_int p v of None \<Rightarrow> Inl ValidationError | Some i \<Rightarrow> Inr (Some i)))"

section \<open>The store directory\<close>

text \<open>
  The directory \<open>DATA_DIR\<close> is the list of its entries, in the order in which the
  directory is enumerated. An entry is a file name, what reading the file gives, and
  whether the file can be opened for writing. The directory holds regular files only,
  and a name occurs once. The directory itself can be written and has room, and a file
  that the server creates is one that it can open for writing again. A new file is put
  at the end of the enumeration; no statement below depends on where it is put.
\<close>

datatype contents =
    Unreadable  \<comment> \<open>\<open>open\<close> or \<open>read\<close> raises\<close>
  | Malformed   \<comment> \<open>the text is not JSON: \<open>json.load\<close> raises\<close>
  | Doc json

type_synonym directory = "(string \<times> contents \<times> bool) list"

text \<open>What the reading operations see of the directory: the names and the contents.\<close>

type_synonym store = "(string \<times> contents) list"

definition store_of :: "directory \<Rightarrow> store" where
  "store_of d = map (\<lambda>(nm, c, w). (nm, c)) d"

definition endswith :: "string \<Rightarrow> string \<Rightarrow> bool" where
  "endswith s suffix =
     (length suffix \<le> length s \<and> drop (length s - length suffix) s = suffix)"

definition stem :: "string \<Rightarrow> string" where
  \<comment> \<open>\<open>Path.stem\<close>: the name without its last suffix; a dot that begins or ends the
      name starts no suffix\<close>
  "stem nm =
     (let k = length (dropWhile (\<lambda>c. c \<noteq> CHR ''.'') (rev nm))
      in if 2 \<le> k \<and> k < length nm then take (k - 1) nm else nm)"

definition utf8_length :: "string \<Rightarrow> nat" where
  "utf8_length s = length s + length (filter (\<lambda>c. 128 \<le> (of_char c :: nat)) s)"

definition open_w :: "string \<Rightarrow> directory \<Rightarrow> error option" where
  \<comment> \<open>\<open>open(DATA_DIR / name, "w")\<close> raises for a name that is no single path
      component (a NUL, a slash) or is longer than 255 bytes, and for an existing file
      that cannot be opened for writing (\<open>PermissionError\<close> is an \<open>OSError\<close>)\<close>
  "open_w nm d =
     (if char_of (0::nat) \<in> set nm then Some ValueError
      else if CHR ''/'' \<in> set nm \<or> 255 < utf8_length nm then Some OSError
      else case map_of d nm of
             None \<Rightarrow> None
           | Some (c, w) \<Rightarrow> if w then None else Some OSError)"

section \<open>The operations\<close>

definition summarize :: "coercions \<Rightarrow> string \<Rightarrow> contents \<Rightarrow> error + EvaluationSummary" where
  \<comment> \<open>the body of the \<open>try\<close> in \<open>list_evaluations\<close>, for one file\<close>
  "summarize p nm f =
     (case f of
        Unreadable \<Rightarrow> Inl OSError
      | Malformed \<Rightarrow> Inl JSONDecodeError
      | Doc data \<Rightarrow>
          (case data of
             JObj kvs \<Rightarrow>
               (case py_len (dict_get kvs ''measurements'' (JObj [])) of
                  Inl e \<Rightarrow> Inl e
                | Inr n \<Rightarrow>
                    (case (str_field p (dict_get kvs ''person_name'' (JStr ''Unnamed'')),
                           opt_int_field p (dict_get kvs ''person_age'' JNull),
                           opt_str_field p (dict_get kvs ''person_sex'' JNull),
                           str_field p (dict_get kvs ''updated_at'' (JStr []))) of
                       (Inr nm', Inr a, Inr s, Inr u) \<Rightarrow>
                         Inr \<lparr>filename = stem nm, name = nm', age = a, sex = s,
                              measurement_count = n, summary_updated_at = u\<rparr>
                     | _ \<Rightarrow> Inl ValidationError))
           | _ \<Rightarrow> Inl AttributeError))"

fun collect :: "coercions \<Rightarrow> store \<Rightarrow> EvaluationSummary list \<Rightarrow> EvaluationSummary list" where
  \<comment> \<open>the loop over \<open>DATA_DIR.glob("*.json")\<close>; an exception skips the file\<close>
  "collect p [] evaluations = evaluations"
| "collect p ((nm, f) # files) evaluations =
     (if endswith nm ''.json''
      then (case summarize p nm f of
              Inl e \<Rightarrow> collect p files evaluations
            | Inr s \<Rightarrow> collect p files (evaluations @ [s]))
      else collect p files evaluations)"

definition sort_reverse :: "('a \<Rightarrow> 'k::linorder) \<Rightarrow> 'a list \<Rightarrow> 'a list" where
  \<comment> \<open>\<open>list.sort(key=..., reverse=True)\<close>: descending and stable\<close>
  "sort_reverse key xs = rev (sort_key key (rev xs))"

definition list_evaluations :: "coercions \<Rightarrow> store \<Rightarrow> error + EvaluationSummary list" where
  "list_evaluations p st = Inr (sort_reverse summary_updated_at (collect p st []))"

definition get_evaluation :: "string \<Rightarrow> store \<Rightarrow> error + json" where
  "get_evaluation nm st =
     (let filepath = sanitize_filename nm @ ''.json''
      in case map_of st filepath of
           None \<Rightarrow> Inl (HTTPException 404 ''Evaluation not found'')
         | Some Unreadable \<Rightarrow> Inl OSError
         | Some Malformed \<Rightarrow> Inl JSONDecodeError
         | Some (Doc data) \<Rightarrow> Inr data)"

definition save_evaluation ::
  "string \<Rightarrow> Evaluation \<Rightarrow> directory \<Rightarrow> directory \<times> (error + json)" where
  \<comment> \<open>\<open>utcnow\<close> is \<open>datetime.utcnow().isoformat()\<close> at the call\<close>
  "save_evaluation utcnow evaluation st =
     (case person_age evaluation of
        None \<Rightarrow> (st, Inl (HTTPException 400 ''Age is required''))
      | Some a \<Rightarrow>
          if a = 0 then (st, Inl (HTTPException 400 ''Age is required''))
          else
            let fname = get_eval_filename (person_name evaluation) a (person_sex evaluation);
                data = AList.update ''updated_at'' (JStr (utcnow @ ''Z'')) (dict evaluation)
            in case open_w fname st of
                 Some e \<Rightarrow> (st, Inl e)
               | None \<Rightarrow>
                   (AList.update fname (Doc (JObj data), True) st,
                    Inr (JObj [(''status'', JStr ''saved''), (''filename'', JStr fname)])))"

definition delete_evaluation :: "string \<Rightarrow> directory \<Rightarrow> directory \<times> (error + json)" where
  "delete_evaluation nm st =
     (let filepath = sanitize_filename nm @ ''.json''
      in case map_of st filepath of
           None \<Rightarrow> (st, Inl (HTTPException 404 ''Evaluation not found''))
         | Some f \<Rightarrow> (AList.delete filepath st, Inr (JObj [(''status'', JStr ''deleted'')])))"

section \<open>Auxiliary notions and example data\<close>

text \<open>A string without two adjacent dashes: what \<^const>\<open>sub_dashes\<close> leaves.\<close>

fun no_dash_run :: "string \<Rightarrow> bool" where
  "no_dash_run (c # d # cs) = (\<not> (c = CHR ''-'' \<and> d = CHR ''-'') \<and> no_dash_run (d # cs))"
| "no_dash_run cs = True"

text \<open>What one directory entry contributes to the listing.\<close>

definition entry_summary :: "coercions \<Rightarrow> string \<times> contents \<Rightarrow> EvaluationSummary list" where
  "entry_summary p e =
     (if endswith (fst e) ''.json''
      then (case summarize p (fst e) (snd e) of Inl err \<Rightarrow> [] | Inr s \<Rightarrow> [s])
      else [])"

text \<open>The strict validation, which converts nothing.\<close>

definition no_coercion :: coercions where
  "no_coercion = \<lparr>coerce_str = (\<lambda>v. None), coerce_int = (\<lambda>v. None)\<rparr>"

definition example_evaluation :: Evaluation where
  "example_evaluation =
     \<lparr>eval_id = ''e-1'', created_at = ''2024-01-01T00:00:00Z'',
      updated_at = ''2024-01-01T00:00:00Z'', person_name = Some ''Bob'',
      person_age = Some 30, person_sex = Some ''male'',
      measurements = [(''weight'', JInt 80)], eval_notes = None\<rparr>"

definition january :: "string \<times> contents" where
  "january =
     (''ann_41_f.json'',
      Doc (JObj [(''id'', JStr ''e-2''), (''person_name'', JStr ''Ann''),
                 (''person_age'', JInt 41), (''person_sex'', JStr ''female''),
                 (''measurements'', JObj [(''pulse'', JInt 60)]),
                 (''updated_at'', JStr ''2024-01-01T00:00:00Z'')]))"

definition june :: "string \<times> contents" where
  "june =
     (''bob_30_m.json'',
      Doc (JObj [(''id'', JStr ''e-1''), (''person_name'', JStr ''Bob''),
                 (''person_age'', JInt 30), (''person_sex'', JStr ''male''),
                 (''measurements'', JObj []),
                 (''updated_at'', JStr ''2024-06-01T00:00:00Z'')]))"

definition undated :: "string \<times> contents" where
  "undated =
     (''cy_7_m.json'',
      Doc (JObj [(''id'', JStr ''e-3''), (''person_name'', JStr ''Cy''),
                 (''person_age'', JInt 7), (''person_sex'', JStr ''m'')]))"

definition expected_order :: "EvaluationSummary list" where
  "expected_order =
     [\<lparr>filename = ''bob_30_m'', name = ''Bob'', age = Some 30, sex = Some ''male'',
       measurement_count = 0, summary_updated_at = ''2024-06-01T00:00:00Z''\<rparr>,
      \<lparr>filename = ''ann_41_f'', name = ''Ann'', age = Some 41, sex = Some ''female'',
       measurement_count = 1, summary_updated_at = ''2024-01-01T00:00:00Z''\<rparr>,
      \<lparr>filename = ''cy_7_m'', name = ''Cy'', age = Some 7, sex = Some ''m'',
       measurement_count = 0, summary_updated_at = []\<rparr>]"

definition example_directory :: directory where
  "example_directory = [(''ann_41_f.json'', snd january, True)]"

definition blank :: "string \<times> contents" where
  "blank = (''dee_5_f.json'', Doc (JObj []))"

section \<open>The sanitizer\<close>

lemma safe_dash: "safe_char (CHR ''-'')"
  by (simp add: safe_char_def)

lemma sub_unsafe_safe: "c \<in> set (sub_unsafe s) \<Longrightarrow> safe_char c"
  by (auto simp: sub_unsafe_def safe_dash)

lemma set_sub_dashes: "set (sub_dashes s) \<subseteq> set s"
  by (induction s rule: sub_dashes.induct) auto

lemma sanitize_safe: "c \<in> set (sanitize_filename x) \<Longrightarrow> safe_char c"
  unfolding sanitize_filename_def Let_def
  using set_sub_dashes sub_unsafe_safe by (meson in_set_takeD subsetD)

lemma sub_dashes_head: "\<exists>r. sub_dashes (d # cs) = d # r"
  by (induction cs arbitrary: d) auto

lemma no_dash_run_sub_dashes: "no_dash_run (sub_dashes s)"
proof (induction s rule: sub_dashes.induct)
  case (1 c d cs)
  obtain r where r: "sub_dashes (d # cs) = d # r"
    using sub_dashes_head by blast
  with 1 show ?case by auto
qed simp_all

lemma sub_dashes_fixed: "no_dash_run s \<Longrightarrow> sub_dashes s = s"
  by (induction s rule: sub_dashes.induct) auto

lemma no_dash_run_take: "no_dash_run s \<Longrightarrow> no_dash_run (take n s)"
proof (induction s arbitrary: n rule: no_dash_run.induct)
  case (1 c d cs)
  show ?case
  proof (cases n)
    case 0
    then show ?thesis by simp
  next
    case (Suc m)
    from 1 have "no_dash_run (take m (d # cs))" by simp
    with 1 Suc show ?thesis by (cases m) simp_all
  qed
qed (simp_all add: take_Cons')

lemma lower_char_safe: "safe_char c \<Longrightarrow> lower_char c = c"
  by (auto simp: safe_char_def lower_char_def Let_def)

lemma not_isspace_safe: "safe_char c \<Longrightarrow> \<not> isspace c"
  by (auto simp: safe_char_def isspace_def Let_def)

lemma dropWhile_none: "\<forall>c\<in>set s. \<not> P c \<Longrightarrow> dropWhile P s = s"
  by (cases s) auto

lemma sanitize_fixed:
  assumes "\<forall>c\<in>set s. safe_char c" and "no_dash_run s" and "length s \<le> 50"
  shows "sanitize_filename s = s"
proof -
  from assms(1) have "lower s = s"
    by (simp add: lower_def lower_char_safe map_idI)
  moreover from assms(1) have "strip s = s"
    by (simp add: strip_def dropWhile_none not_isspace_safe)
  moreover from assms(1) have "sub_unsafe s = s"
    by (simp add: sub_unsafe_def map_idI)
  ultimately show ?thesis
    using assms(2,3) by (simp add: sanitize_filename_def sub_dashes_fixed)
qed

lemma no_dash_run_sanitize: "no_dash_run (sanitize_filename x)"
  by (simp add: sanitize_filename_def no_dash_run_take no_dash_run_sub_dashes)

text \<open>
  Claim C8. Sanitizing is idempotent: sanitizing a sanitized string changes nothing.
\<close>

theorem sanitize_idempotent: "sanitize_filename (sanitize_filename x) = sanitize_filename x"
proof (rule sanitize_fixed)
  show "\<forall>c\<in>set (sanitize_filename x). safe_char c" by (simp add: sanitize_safe)
  show "no_dash_run (sanitize_filename x)" by (rule no_dash_run_sanitize)
  show "length (sanitize_filename x) \<le> 50" by (simp add: sanitize_filename_def)
qed

text \<open>
  Claim C9. A sanitized string is at most 50 characters long, and each of its characters
  is in \<open>[a-z0-9\-_]\<close>.
\<close>

theorem sanitize_bounded_safe:
  "length (sanitize_filename x) \<le> 50 \<and> (\<forall>c\<in>set (sanitize_filename x). safe_char c)"
  by (simp add: sanitize_safe sanitize_filename_def)

theorem sanitize_bounded_safe_witness:
  "sanitize_filename ''  Jane  Doe!! '' = ''jane-doe-'' \<and>
   length (sanitize_filename ''  Jane  Doe!! '') \<le> 50 \<and>
   list_all safe_char (sanitize_filename ''  Jane  Doe!! '')"
proof -
  have "sanitize_filename ''  Jane  Doe!! '' = ''jane-doe-''" by code_simp
  with sanitize_bounded_safe [of "''  Jane  Doe!! ''"] show ?thesis
    by (simp only: list_all_iff) blast
qed

section \<open>The derived file name\<close>

text \<open>
  Claim C2 says that an absent \<open>sex\<close> gives the whole word \<open>unknown\<close> as the sex
  indicator. The index \<open>[0]\<close> applies to the fallback too: the indicator is \<open>u\<close>.
\<close>

theorem sex_indicator_counterexample:
  "sex_part None = ''u'' \<and>
   get_eval_filename (Some ''Bob'') 30 None = ''bob_30_u.json'' \<and>
   get_eval_filename (Some ''Bob'') 30 None \<noteq> ''bob_30_unknown.json''"
  by code_simp

text \<open>
  Claim C2, amended. For a \<open>sex\<close> that is present and not empty, the sex indicator of the
  derived file name is its first character in lower case; for an absent \<open>sex\<close> it is
  the one character \<open>u\<close>, the first character of the fallback \<open>unknown\<close>.
\<close>

theorem sex_indicator_first_char:
  "sex_part (Some (c # cs)) = [lower_char c] \<and>
   sex_part None = ''u'' \<and>
   get_eval_filename nm a (Some (c # cs)) =
     name_part nm @ ''_'' @ str_int a @ ''_'' @ [lower_char c] @ ''.json'' \<and>
   get_eval_filename nm a None = name_part nm @ ''_'' @ str_int a @ ''_'' @ ''u'' @ ''.json''"
proof -
  have "lower_char CHR ''u'' = CHR ''u''" by code_simp
  then show ?thesis
    by (simp add: sex_part_def get_eval_filename_def py_or_def lower_def)
qed

text \<open>
  Claim C7 says that a name whose lower-cased, trimmed form is empty gives the name
  component \<open>unnamed\<close>. The fallback is chosen before the name is trimmed, so a name of
  blanks gives the empty component.
\<close>

theorem unnamed_counterexample:
  "strip (lower ''  '') = [] \<and>
   name_part (Some ''  '') = [] \<and>
   name_part (Some ''  '') \<noteq> ''unnamed'' \<and>
   get_eval_filename (Some ''  '') 30 (Some ''m'') = ''_30_m.json''"
  by code_simp

text \<open>
  Claim C7, amended. For a name that is absent or the empty string, the name component
  of the derived file name is \<open>unnamed\<close>; any other name is sanitized as it is.
\<close>

theorem unnamed_for_absent_or_empty:
  "name_part None = ''unnamed'' \<and>
   name_part (Some []) = ''unnamed'' \<and>
   (s \<noteq> [] \<longrightarrow> name_part (Some s) = sanitize_filename s) \<and>
   get_eval_filename None a sx = ''unnamed'' @ ''_'' @ str_int a @ ''_'' @ sex_part sx @ ''.json''"
proof -
  have "sanitize_filename ''unnamed'' = ''unnamed''" by code_simp
  then show ?thesis
    by (simp add: name_part_def get_eval_filename_def py_or_def)
qed

theorem unnamed_for_absent_or_empty_witness:
  "''Jane Doe'' \<noteq> [] \<and> name_part (Some ''Jane Doe'') = ''jane-doe''"
proof -
  have "sanitize_filename ''Jane Doe'' = ''jane-doe''" by code_simp
  with unnamed_for_absent_or_empty [of "''Jane Doe''"] show ?thesis by simp
qed

lemma str_nat_digits:
  "c \<in> set (str_nat n) \<Longrightarrow> 48 \<le> (of_char c :: nat) \<and> (of_char c :: nat) \<le> 57"
proof (induction n rule: str_nat.induct)
  case (1 n)
  show ?case
  proof (cases "n < 10")
    case True
    with "1.prems" show ?thesis by (simp add: str_nat.simps [of n])
  next
    case False
    with "1.prems" have "c \<in> set (str_nat (n div 10)) \<or> c = char_of (48 + n mod 10)"
      by (auto simp: str_nat.simps [of n])
    then show ?thesis
    proof
      assume "c \<in> set (str_nat (n div 10))"
      with False "1.IH" show ?thesis by simp
    next
      assume c: "c = char_of (48 + n mod 10)"
      have "n mod 10 < 10" by simp
      then have "(48 + n mod 10) mod 256 = 48 + n mod 10" by simp
      with c show ?thesis by simp
    qed
  qed
qed

lemma digit_safe:
  "48 \<le> (of_char c :: nat) \<Longrightarrow> (of_char c :: nat) \<le> 57 \<Longrightarrow> safe_char c \<and> c \<noteq> CHR ''-''"
  by (auto simp: safe_char_def)

lemma str_int_safe: "c \<in> set (str_int a) \<Longrightarrow> safe_char c"
  using str_nat_digits digit_safe by (auto simp: str_int_def safe_dash split: if_splits)

lemma no_dash_run_no_dash: "CHR ''-'' \<notin> set s \<Longrightarrow> no_dash_run s"
  by (induction s rule: no_dash_run.induct) auto

lemma no_dash_run_Cons: "CHR ''-'' \<notin> set s \<Longrightarrow> no_dash_run (c # s)"
  by (cases s) (auto simp: no_dash_run_no_dash)

lemma str_nat_no_dash: "CHR ''-'' \<notin> set (str_nat n)"
  using str_nat_digits digit_safe by blast

lemma no_dash_run_str_int: "no_dash_run (str_int a)"
  by (simp add: str_int_def no_dash_run_Cons no_dash_run_no_dash str_nat_no_dash)

lemma no_dash_run_after_underscore: "no_dash_run (CHR ''_'' # b) = no_dash_run b"
  by (cases b) simp_all

lemma no_dash_run_underscore:
  "no_dash_run (a @ CHR ''_'' # b) = (no_dash_run a \<and> no_dash_run b)"
  by (induction a rule: no_dash_run.induct) (simp_all add: no_dash_run_after_underscore)

lemma no_dash_run_short: "length s \<le> 1 \<Longrightarrow> no_dash_run s"
  by (cases s rule: no_dash_run.cases) simp_all

lemma key_fixed:
  assumes "length (name_part nm @ ''_'' @ str_int a @ ''_'' @ sex_part sx) \<le> 50"
    and "\<forall>c\<in>set (sex_part sx). safe_char c"
  shows "sanitize_filename (name_part nm @ ''_'' @ str_int a @ ''_'' @ sex_part sx)
         = name_part nm @ ''_'' @ str_int a @ ''_'' @ sex_part sx"
proof (rule sanitize_fixed)
  have "safe_char (CHR ''_'')" by (simp add: safe_char_def)
  with assms(2) show "\<forall>c\<in>set (name_part nm @ ''_'' @ str_int a @ ''_'' @ sex_part sx). safe_char c"
    by (auto simp: name_part_def sanitize_safe str_int_safe)
  have "length (sex_part sx) \<le> 1" by (simp add: sex_part_def lower_def)
  then have "no_dash_run (sex_part sx)" by (rule no_dash_run_short)
  then show "no_dash_run (name_part nm @ ''_'' @ str_int a @ ''_'' @ sex_part sx)"
    by (simp add: no_dash_run_underscore no_dash_run_str_int name_part_def no_dash_run_sanitize)
  show "length (name_part nm @ ''_'' @ str_int a @ ''_'' @ sex_part sx) \<le> 50" by (rule assms(1))
qed

section \<open>Saving\<close>

text \<open>
  Claim C4. A record whose \<open>person_age\<close> is absent, null or zero is refused with the
  client error "Age is required" (status 400), and the store directory is left as it
  was.
\<close>

theorem save_requires_age:
  "person_age ev = None \<or> person_age ev = Some 0 \<Longrightarrow>
   save_evaluation utcnow ev st = (st, Inl (HTTPException 400 ''Age is required''))"
  by (auto simp: save_evaluation_def)

theorem save_requires_age_witness:
  "person_age (example_evaluation\<lparr>person_age := Some 0\<rparr>) = Some 0 \<and>
   save_evaluation ''2024-06-01T00:00:00'' (example_evaluation\<lparr>person_age := Some 0\<rparr>)
       [(''a_1_f.json'', Malformed, True)] =
     ([(''a_1_f.json'', Malformed, True)], Inl (HTTPException 400 ''Age is required''))"
  using save_requires_age [of "example_evaluation\<lparr>person_age := Some 0\<rparr>"
      "''2024-06-01T00:00:00''" "[(''a_1_f.json'', Malformed, True)]"]
  by simp

lemma one_entry:
  "distinct (map fst al) \<Longrightarrow> k \<in> fst ` set al \<Longrightarrow> length (filter (\<lambda>e. fst e = k) al) = 1"
proof (induction al)
  case Nil
  then show ?case by simp
next
  case (Cons e al)
  show ?case
  proof (cases "fst e = k")
    case True
    with Cons.prems have "k \<notin> fst ` set al" by auto
    then have "filter (\<lambda>e. fst e = k) al = []"
      by (force simp: filter_empty_conv)
    with True show ?thesis by simp
  next
    case False
    with Cons show ?thesis by auto
  qed
qed

lemma map_of_store_of: "map_of (store_of d) k = map_option fst (map_of d k)"
  by (induction d) (auto simp: store_of_def)

lemma save_ok:
  assumes "person_age ev = Some a" and "a \<noteq> 0"
    and "open_w (get_eval_filename (person_name ev) a (person_sex ev)) d = None"
  shows "save_evaluation t ev d =
     (AList.update (get_eval_filename (person_name ev) a (person_sex ev))
        (Doc (JObj (AList.update ''updated_at'' (JStr (t @ ''Z'')) (dict ev))), True) d,
      Inr (JObj [(''status'', JStr ''saved''),
                 (''filename'', JStr (get_eval_filename (person_name ev) a (person_sex ev)))]))"
  using assms by (simp add: save_evaluation_def Let_def)

lemma open_w_again: "open_w f d = None \<Longrightarrow> open_w f (AList.update f (c, True) d) = None"
  by (simp add: open_w_def update_conv' split: if_splits)

lemma save_unwritable:
  assumes "person_age ev = Some a" and "a \<noteq> 0"
    and "map_of d (get_eval_filename (person_name ev) a (person_sex ev)) = Some (c, False)"
  shows "\<exists>e. save_evaluation t ev d = (d, Inl e)"
  using assms by (simp add: save_evaluation_def Let_def open_w_def)

lemma saved_id:
  "dict_get (AList.update ''updated_at'' v (dict ev)) ''id'' JNull = JStr (eval_id ev)"
  by (simp add: dict_def dict_get_def)

text \<open>
  Claim C1 says that saving two records with the same name, age and sex always leaves
  exactly one file. Two such records whose \<open>sex\<close> begins with a slash have a derived
  name that is no file name: both saves raise, and the directory stays empty.
\<close>

theorem second_save_counterexample:
  "person_name (example_evaluation\<lparr>person_sex := Some ''/''\<rparr>) =
     person_name (example_evaluation\<lparr>eval_id := ''e-9'', person_sex := Some ''/''\<rparr>) \<and>
   person_age (example_evaluation\<lparr>person_sex := Some ''/''\<rparr>) =
     person_age (example_evaluation\<lparr>eval_id := ''e-9'', person_sex := Some ''/''\<rparr>) \<and>
   person_sex (example_evaluation\<lparr>person_sex := Some ''/''\<rparr>) =
     person_sex (example_evaluation\<lparr>eval_id := ''e-9'', person_sex := Some ''/''\<rparr>) \<and>
   eval_id (example_evaluation\<lparr>person_sex := Some ''/''\<rparr>) \<noteq>
     eval_id (example_evaluation\<lparr>eval_id := ''e-9'', person_sex := Some ''/''\<rparr>) \<and>
   save_evaluation ''2024-06-01T10:00:00'' (example_evaluation\<lparr>person_sex := Some ''/''\<rparr>) []
     = ([], Inl OSError) \<and>
   save_evaluation ''2024-06-02T10:00:00''
       (example_evaluation\<lparr>eval_id := ''e-9'', person_sex := Some ''/''\<rparr>) []
     = ([], Inl OSError)"
  by code_simp

text \<open>
  Claim C1, amended. Two records with the same name, age and sex and different ids,
  with a non-zero age and a derived file that can be opened for writing, are saved one
  after the other. Both saves succeed; afterwards the directory has exactly one file
  of the derived name, its content is the second record as serialized (its id
  included, \<open>updated_at\<close> set by the second save), nothing of the first record is
  left, and every other file is as before.
\<close>

theorem second_save_overwrites:
  assumes "person_name e1 = person_name e2" and "person_age e1 = person_age e2"
    and "person_sex e1 = person_sex e2" and "eval_id e1 \<noteq> eval_id e2"
    and "person_age e2 = Some a" and "a \<noteq> 0"
    and "open_w (get_eval_filename (person_name e2) a (person_sex e2)) d = None"
    and "distinct (map fst d)"
  shows "\<exists>d1 r1 d2 r2.
           save_evaluation t1 e1 d = (d1, Inr r1)
         \<and> save_evaluation t2 e2 d1 = (d2, Inr r2)
         \<and> distinct (map fst d2)
         \<and> length (filter (\<lambda>e. fst e = get_eval_filename (person_name e2) a (person_sex e2))
                     d2) = 1
         \<and> map_of (store_of d2) (get_eval_filename (person_name e2) a (person_sex e2))
             = Some (Doc (JObj (AList.update ''updated_at'' (JStr (t2 @ ''Z'')) (dict e2))))
         \<and> dict_get (AList.update ''updated_at'' (JStr (t2 @ ''Z'')) (dict e2)) ''id'' JNull
             = JStr (eval_id e2)
         \<and> (\<forall>nm. nm \<noteq> get_eval_filename (person_name e2) a (person_sex e2)
                \<longrightarrow> map_of d2 nm = map_of d nm)
         \<and> (d = [] \<longrightarrow>
              d2 = [(get_eval_filename (person_name e2) a (person_sex e2),
                     Doc (JObj (AList.update ''updated_at'' (JStr (t2 @ ''Z'')) (dict e2))),
                     True)])"
proof -
  let ?f = "get_eval_filename (person_name e2) a (person_sex e2)"
  let ?c1 = "Doc (JObj (AList.update ''updated_at'' (JStr (t1 @ ''Z'')) (dict e1)))"
  let ?c2 = "Doc (JObj (AList.update ''updated_at'' (JStr (t2 @ ''Z'')) (dict e2)))"
  let ?d1 = "AList.update ?f (?c1, True) d"
  let ?d2 = "AList.update ?f (?c2, True) d"
  let ?r = "JObj [(''status'', JStr ''saved''), (''filename'', JStr ?f)]"
  from assms have s1: "save_evaluation t1 e1 d = (?d1, Inr ?r)"
    by (simp add: save_ok)
  from assms(7) have "open_w ?f ?d1 = None" by (rule open_w_again)
  with assms(5,6) have "save_evaluation t2 e2 ?d1 = (AList.update ?f (?c2, True) ?d1, Inr ?r)"
    by (rule save_ok)
  then have s2: "save_evaluation t2 e2 ?d1 = (?d2, Inr ?r)" by simp
  from assms(8) have dd: "distinct (map fst ?d2)" by (rule distinct_update)
  have "?f \<in> fst ` set ?d2" by (simp add: dom_update)
  with dd have one: "length (filter (\<lambda>e. fst e = ?f) ?d2) = 1" by (rule one_entry)
  have m: "map_of (store_of ?d2) ?f = Some ?c2" by (simp add: map_of_store_of update_conv')
  have others: "\<forall>nm. nm \<noteq> ?f \<longrightarrow> map_of ?d2 nm = map_of d nm"
    by (simp add: update_conv')
  have empty: "d = [] \<longrightarrow> ?d2 = [(?f, ?c2, True)]" by simp
  from s1 s2 dd one m others empty saved_id [of "JStr (t2 @ ''Z'')" e2]
  show ?thesis by blast
qed

theorem second_save_overwrites_witness:
  "eval_id example_evaluation \<noteq>
     eval_id (example_evaluation\<lparr>eval_id := ''e-9'', eval_notes := Some ''again''\<rparr>) \<and>
   open_w ''bob_30_m.json'' example_directory = None \<and>
   snd (save_evaluation ''2024-06-01T10:00:00'' example_evaluation example_directory) =
     Inr (JObj [(''status'', JStr ''saved''), (''filename'', JStr ''bob_30_m.json'')]) \<and>
   save_evaluation ''2024-06-02T10:00:00''
       (example_evaluation\<lparr>eval_id := ''e-9'', eval_notes := Some ''again''\<rparr>)
       (fst (save_evaluation ''2024-06-01T10:00:00'' example_evaluation example_directory)) =
     ([(''ann_41_f.json'', snd january, True),
       (''bob_30_m.json'',
        Doc (JObj [(''id'', JStr ''e-9''), (''created_at'', JStr ''2024-01-01T00:00:00Z''),
                   (''updated_at'', JStr ''2024-06-02T10:00:00Z''),
                   (''person_name'', JStr ''Bob''), (''person_age'', JInt 30),
                   (''person_sex'', JStr ''male''),
                   (''measurements'', JObj [(''weight'', JInt 80)]),
                   (''notes'', JStr ''again'')]),
        True)],
      Inr (JObj [(''status'', JStr ''saved''), (''filename'', JStr ''bob_30_m.json'')])) \<and>
   length (filter (\<lambda>e. fst e = ''bob_30_m.json'')
     (fst (save_evaluation ''2024-06-02T10:00:00''
        (example_evaluation\<lparr>eval_id := ''e-9'', eval_notes := Some ''again''\<rparr>)
        (fst (save_evaluation ''2024-06-01T10:00:00'' example_evaluation
           example_directory))))) = 1"
proof -
  let ?e2 = "example_evaluation\<lparr>eval_id := ''e-9'', eval_notes := Some ''again''\<rparr>"
  have f: "get_eval_filename (person_name ?e2) 30 (person_sex ?e2) = ''bob_30_m.json''"
    by code_simp
  have h: "person_name example_evaluation = person_name ?e2"
    "person_age example_evaluation = person_age ?e2"
    "person_sex example_evaluation = person_sex ?e2"
    "eval_id example_evaluation \<noteq> eval_id ?e2"
    "person_age ?e2 = Some 30" "(30::int) \<noteq> 0"
    by (simp_all add: example_evaluation_def)
  have o': "open_w ''bob_30_m.json'' example_directory = None" by code_simp
  then have o: "open_w (get_eval_filename (person_name ?e2) 30 (person_sex ?e2))
      example_directory = None"
    by (simp only: f)
  have dd: "distinct (map fst example_directory)" by (simp add: example_directory_def)
  obtain d1 r1 d2 r2 where
    s1: "save_evaluation ''2024-06-01T10:00:00'' example_evaluation example_directory
          = (d1, Inr r1)"
    and s2: "save_evaluation ''2024-06-02T10:00:00'' ?e2 d1 = (d2, Inr r2)"
    and one: "length (filter (\<lambda>e. fst e = get_eval_filename (person_name ?e2) 30
                 (person_sex ?e2)) d2) = 1"
    using second_save_overwrites [OF h o dd, of "''2024-06-01T10:00:00''"
        "''2024-06-02T10:00:00''"]
    by blast
  note one' = one [unfolded f]
  from s1 s2 one' have once: "length (filter (\<lambda>e. fst e = ''bob_30_m.json'')
     (fst (save_evaluation ''2024-06-02T10:00:00'' ?e2
        (fst (save_evaluation ''2024-06-01T10:00:00'' example_evaluation
           example_directory))))) = 1"
    by simp
  have c1: "snd (save_evaluation ''2024-06-01T10:00:00'' example_evaluation example_directory) =
     Inr (JObj [(''status'', JStr ''saved''), (''filename'', JStr ''bob_30_m.json'')])"
    by code_simp
  have c2: "save_evaluation ''2024-06-02T10:00:00'' ?e2
       (fst (save_evaluation ''2024-06-01T10:00:00'' example_evaluation example_directory)) =
     ([(''ann_41_f.json'', snd january, True),
       (''bob_30_m.json'',
        Doc (JObj [(''id'', JStr ''e-9''), (''created_at'', JStr ''2024-01-01T00:00:00Z''),
                   (''updated_at'', JStr ''2024-06-02T10:00:00Z''),
                   (''person_name'', JStr ''Bob''), (''person_age'', JInt 30),
                   (''person_sex'', JStr ''male''),
                   (''measurements'', JObj [(''weight'', JInt 80)]),
                   (''notes'', JStr ''again'')]),
        True)],
      Inr (JObj [(''status'', JStr ''saved''), (''filename'', JStr ''bob_30_m.json'')]))"
    by code_simp
  from h(4) o' c1 c2 once show ?thesis by blast
qed

text \<open>
  Claim C3 says that saving returns the derived name without the extension and that
  reading with the returned string succeeds. The returned name ends in \<open>.json\<close>, and
  reading or deleting with it looks for another file.
\<close>

theorem save_returned_name_counterexample:
  "snd (save_evaluation ''2024-06-01T10:00:00'' example_evaluation []) =
     Inr (JObj [(''status'', JStr ''saved''), (''filename'', JStr ''bob_30_m.json'')])
   \<and> get_evaluation ''bob_30_m.json''
       (store_of (fst (save_evaluation ''2024-06-01T10:00:00'' example_evaluation [])))
     = Inl (HTTPException 404 ''Evaluation not found'')
   \<and> snd (delete_evaluation ''bob_30_m.json''
       (fst (save_evaluation ''2024-06-01T10:00:00'' example_evaluation [])))
     = Inl (HTTPException 404 ''Evaluation not found'')"
  by code_simp

text \<open>
  Claim C3, amended. For a record with a non-zero \<open>person_age\<close> whose derived file can be
  opened for writing, saving succeeds and returns the derived file name with its
  extension \<open>.json\<close>. Reading or deleting with that name less the extension succeeds
  and finds the file just written, provided the name less the extension is at most 50
  characters long and the sex indicator is in \<open>[a-z0-9\-_]\<close>.
\<close>

theorem save_then_get_by_stem:
  assumes "person_age ev = Some a" and "a \<noteq> 0"
    and "open_w (get_eval_filename (person_name ev) a (person_sex ev)) d = None"
  shows "\<exists>d'. save_evaluation t ev d =
           (d', Inr (JObj [(''status'', JStr ''saved''),
                (''filename'',
                 JStr ((name_part (person_name ev) @ ''_'' @ str_int a @ ''_'' @
                        sex_part (person_sex ev)) @ ''.json''))]))
       \<and> (length (name_part (person_name ev) @ ''_'' @ str_int a @ ''_'' @
                   sex_part (person_sex ev)) \<le> 50
          \<and> (\<forall>c\<in>set (sex_part (person_sex ev)). safe_char c)
          \<longrightarrow> get_evaluation
                (name_part (person_name ev) @ ''_'' @ str_int a @ ''_'' @ sex_part (person_sex ev))
                (store_of d')
              = Inr (JObj (AList.update ''updated_at'' (JStr (t @ ''Z'')) (dict ev)))
            \<and> (\<exists>d''. delete_evaluation
                  (name_part (person_name ev) @ ''_'' @ str_int a @ ''_'' @
                   sex_part (person_sex ev)) d'
                 = (d'', Inr (JObj [(''status'', JStr ''deleted'')]))
                \<and> map_of d'' (get_eval_filename (person_name ev) a (person_sex ev)) = None))"
proof -
  let ?key = "name_part (person_name ev) @ ''_'' @ str_int a @ ''_'' @ sex_part (person_sex ev)"
  let ?f = "get_eval_filename (person_name ev) a (person_sex ev)"
  let ?c = "Doc (JObj (AList.update ''updated_at'' (JStr (t @ ''Z'')) (dict ev)))"
  let ?d' = "AList.update ?f (?c, True) d"
  have f: "?f = ?key @ ''.json''" by (simp add: get_eval_filename_def)
  from assms have s: "save_evaluation t ev d =
      (?d', Inr (JObj [(''status'', JStr ''saved''), (''filename'', JStr (?key @ ''.json''))]))"
    by (simp add: save_ok f)
  have m: "map_of ?d' ?f = Some (?c, True)" by (simp add: update_conv')
  then have mf: "map_of (store_of ?d') ?f = Some ?c" by (simp add: map_of_store_of)
  have "get_evaluation ?key (store_of ?d')
        = Inr (JObj (AList.update ''updated_at'' (JStr (t @ ''Z'')) (dict ev)))
      \<and> delete_evaluation ?key ?d'
        = (AList.delete ?f ?d', Inr (JObj [(''status'', JStr ''deleted'')]))
      \<and> map_of (AList.delete ?f ?d') ?f = None"
    if "length ?key \<le> 50" and "\<forall>c\<in>set (sex_part (person_sex ev)). safe_char c"
  proof -
    from that have "sanitize_filename ?key = ?key" by (rule key_fixed)
    then have "sanitize_filename ?key @ ''.json'' = ?f" by (simp add: f)
    with m mf show ?thesis
      by (simp add: get_evaluation_def delete_evaluation_def delete_conv' Let_def)
  qed
  with s show ?thesis by blast
qed

theorem save_then_get_by_stem_witness:
  "person_age example_evaluation = Some 30 \<and> (30::int) \<noteq> 0
   \<and> open_w (get_eval_filename (person_name example_evaluation) 30
               (person_sex example_evaluation)) example_directory = None
   \<and> snd (save_evaluation ''2024-06-01T10:00:00'' example_evaluation example_directory) =
       Inr (JObj [(''status'', JStr ''saved''), (''filename'', JStr ''bob_30_m.json'')])
   \<and> length ''bob_30_m'' \<le> 50 \<and> safe_char CHR ''m''
   \<and> get_evaluation ''bob_30_m''
       (store_of (fst (save_evaluation ''2024-06-01T10:00:00'' example_evaluation
                      example_directory)))
     = Inr (JObj (AList.update ''updated_at'' (JStr ''2024-06-01T10:00:00Z'')
                    (dict example_evaluation)))"
proof -
  have k: "name_part (person_name example_evaluation) @ ''_'' @ str_int 30 @ ''_'' @
        sex_part (person_sex example_evaluation) = ''bob_30_m''"
    and sx: "sex_part (person_sex example_evaluation) = ''m''"
    by code_simp+
  have h: "person_age example_evaluation = Some 30" "(30::int) \<noteq> 0"
    by (simp_all add: example_evaluation_def)
  have o: "open_w (get_eval_filename (person_name example_evaluation) 30
               (person_sex example_evaluation)) example_directory = None"
    by code_simp
  have sf: "\<forall>c\<in>set ''m''. safe_char c" by code_simp
  have l: "length ''bob_30_m'' \<le> 50" by simp
  obtain d' where
    s: "save_evaluation ''2024-06-01T10:00:00'' example_evaluation example_directory =
          (d', Inr (JObj [(''status'', JStr ''saved''),
                           (''filename'', JStr (''bob_30_m'' @ ''.json''))]))"
    and g: "length ''bob_30_m'' \<le> 50 \<and> (\<forall>c\<in>set ''m''. safe_char c)
          \<longrightarrow> get_evaluation ''bob_30_m'' (store_of d')
              = Inr (JObj (AList.update ''updated_at'' (JStr (''2024-06-01T10:00:00'' @ ''Z''))
                             (dict example_evaluation)))
            \<and> (\<exists>d''. delete_evaluation ''bob_30_m'' d'
                 = (d'', Inr (JObj [(''status'', JStr ''deleted'')]))
                \<and> map_of d'' (get_eval_filename (person_name example_evaluation) 30
                     (person_sex example_evaluation)) = None)"
    using save_then_get_by_stem [OF h o, of "''2024-06-01T10:00:00''",
        unfolded k, unfolded sx]
    by blast
  from g l sf have "get_evaluation ''bob_30_m'' (store_of d')
      = Inr (JObj (AList.update ''updated_at'' (JStr (''2024-06-01T10:00:00'' @ ''Z''))
                     (dict example_evaluation)))"
    by blast
  with s have "snd (save_evaluation ''2024-06-01T10:00:00'' example_evaluation
                      example_directory) =
       Inr (JObj [(''status'', JStr ''saved''), (''filename'', JStr ''bob_30_m.json'')])
     \<and> get_evaluation ''bob_30_m''
       (store_of (fst (save_evaluation ''2024-06-01T10:00:00'' example_evaluation
                      example_directory)))
     = Inr (JObj (AList.update ''updated_at'' (JStr ''2024-06-01T10:00:00Z'')
                    (dict example_evaluation)))"
    by simp
  moreover have "safe_char CHR ''m''" by code_simp
  ultimately show ?thesis using h o by simp
qed

section \<open>Listing\<close>

lemma collect_eq: "collect p st acc = acc @ concat (map (entry_summary p) st)"
  by (induction st arbitrary: acc) (auto simp: entry_summary_def split: sum.splits)

lemma list_evaluations_eq:
  "list_evaluations p st =
     Inr (sort_reverse summary_updated_at (concat (map (entry_summary p) st)))"
  by (simp add: list_evaluations_def collect_eq)



lemma sorted_sort_reverse: "sorted_wrt (\<lambda>a b. k b \<le> k a) (sort_reverse k xs)"
proof -
  have "sorted (map k (sort_key k (rev xs)))" by (rule sorted_sort_key)
  then have "sorted_wrt (\<lambda>a b. k a \<le> k b) (sort_key k (rev xs))"
    by (simp add: sorted_map)
  then show ?thesis
    by (simp add: sort_reverse_def sorted_wrt_rev)
qed

lemma string_le_Nil: "(s::string) \<le> [] \<Longrightarrow> s = []"
  by (cases s) simp_all

lemma order1: "list_evaluations p [january, june, undated] = Inr expected_order"
  by code_simp

lemma order2: "list_evaluations p [january, undated, june] = Inr expected_order"
  by code_simp

lemma order3: "list_evaluations p [june, january, undated] = Inr expected_order"
  by code_simp

lemma order4: "list_evaluations p [june, undated, january] = Inr expected_order"
  by code_simp

lemma order5: "list_evaluations p [undated, january, june] = Inr expected_order"
  by code_simp

lemma order6: "list_evaluations p [undated, june, january] = Inr expected_order"
  by code_simp


text \<open>
  Claim C5. The listing is in descending order of \<open>updated_at\<close>, compared as strings,
  and the summaries with an empty \<open>updated_at\<close> come last. The records updated at
  \<open>2024-01-01T00:00:00Z\<close>, at \<open>2024-06-01T00:00:00Z\<close> and with no \<open>updated_at\<close> are
  listed as June, January, undated, in whichever order the directory gives them.
\<close>

theorem list_sorted_descending:
  "(\<exists>out. list_evaluations p st = Inr out
      \<and> sorted_wrt (\<lambda>a b. summary_updated_at b \<le> summary_updated_at a) out
      \<and> (\<forall>i j. i \<le> j \<and> j < length out \<and> summary_updated_at (out ! i) = []
             \<longrightarrow> summary_updated_at (out ! j) = []))
   \<and> (\<forall>files \<in> set [[january, june, undated], [january, undated, june],
                       [june, january, undated], [june, undated, january],
                       [undated, january, june], [undated, june, january]].
         list_evaluations p files = Inr expected_order)"
proof
  let ?out = "sort_reverse summary_updated_at (collect p st [])"
  have s: "sorted_wrt (\<lambda>a b. summary_updated_at b \<le> summary_updated_at a) ?out"
    by (rule sorted_sort_reverse)
  have "summary_updated_at (?out ! j) = []"
    if "i \<le> j" "j < length ?out" "summary_updated_at (?out ! i) = []" for i j
  proof (cases "i = j")
    case True with that show ?thesis by simp
  next
    case False
    with that have "i < j" by simp
    from s this that(2)
    have "summary_updated_at (?out ! j) \<le> summary_updated_at (?out ! i)"
      by (rule sorted_wrt_nth_less)
    with that(3) show ?thesis by (simp add: string_le_Nil)
  qed
  with s show "\<exists>out. list_evaluations p st = Inr out
      \<and> sorted_wrt (\<lambda>a b. summary_updated_at b \<le> summary_updated_at a) out
      \<and> (\<forall>i j. i \<le> j \<and> j < length out \<and> summary_updated_at (out ! i) = []
             \<longrightarrow> summary_updated_at (out ! j) = [])"
    unfolding list_evaluations_def by blast
next
  show "\<forall>files \<in> set [[january, june, undated], [january, undated, june],
                       [june, january, undated], [june, undated, january],
                       [undated, january, june], [undated, june, january]].
         list_evaluations p files = Inr expected_order"
    by (simp add: order1 order2 order3 order4 order5 order6)
qed

theorem list_sorted_descending_witness:
  "(\<exists>out. list_evaluations no_coercion [undated, january, blank] = Inr out
      \<and> summary_updated_at (out ! 1) = [] \<and> summary_updated_at (out ! 2) = [])
   \<and> [undated, june, january] \<in> set [[january, june, undated], [january, undated, june],
                       [june, january, undated], [june, undated, january],
                       [undated, january, june], [undated, june, january]]
   \<and> list_evaluations no_coercion [undated, june, january] = Inr expected_order"
proof -
  obtain out where e: "list_evaluations no_coercion [undated, january, blank] = Inr out"
    and a: "\<forall>i j. i \<le> j \<and> j < length out \<and> summary_updated_at (out ! i) = []
              \<longrightarrow> summary_updated_at (out ! j) = []"
    using list_sorted_descending [of no_coercion "[undated, january, blank]"] by blast
  have b: "list_evaluations no_coercion [undated, june, january] = Inr expected_order"
    using list_sorted_descending [of no_coercion st] by simp
  have "list_evaluations no_coercion [undated, january, blank] =
     Inr [expected_order ! 1, expected_order ! 2,
          \<lparr>filename = ''dee_5_f'', name = ''Unnamed'', age = None, sex = None,
           measurement_count = 0, summary_updated_at = []\<rparr>]"
    by code_simp
  with e have l: "length out = 3" and u: "summary_updated_at (out ! 1) = []"
    by (auto simp: expected_order_def)
  from a [rule_format, of 1 2] l u have "summary_updated_at (out ! 2) = []" by simp
  with e u b show ?thesis by simp
qed









text \<open>
  Claim C10. A file holding a JSON object whose \<open>person_name\<close> is null gets no
  summary: building it raises, the loop skips the file, and the listing is what it
  would be without that file.
\<close>

theorem null_name_omitted:
  assumes "map_of kvs ''person_name'' = Some JNull"
  shows "(\<exists>e. summarize p nm (Doc (JObj kvs)) = Inl e)
       \<and> list_evaluations p (xs @ (nm, Doc (JObj kvs)) # ys) = list_evaluations p (xs @ ys)"
proof -
  from assms have "str_field p (dict_get kvs ''person_name'' (JStr ''Unnamed'')) = Inl ValidationError"
    by (simp add: dict_get_def str_field_def)
  then have s: "\<exists>e. summarize p nm (Doc (JObj kvs)) = Inl e"
    by (simp add: summarize_def split: sum.splits)
  then have "entry_summary p (nm, Doc (JObj kvs)) = []"
    by (auto simp: entry_summary_def)
  with s show ?thesis by (simp add: list_evaluations_eq)
qed

theorem null_name_omitted_witness:
  "map_of [(''id'', JStr ''e-4''), (''person_name'', JNull), (''person_age'', JInt 52),
           (''updated_at'', JStr ''2024-03-01T00:00:00Z'')] ''person_name'' = Some JNull
   \<and> list_evaluations no_coercion
       [january,
        (''x_52_f.json'',
         Doc (JObj [(''id'', JStr ''e-4''), (''person_name'', JNull), (''person_age'', JInt 52),
                    (''updated_at'', JStr ''2024-03-01T00:00:00Z'')])),
        june, undated]
      = Inr expected_order"
proof -
  let ?kvs = "[(''id'', JStr ''e-4''), (''person_name'', JNull), (''person_age'', JInt 52),
           (''updated_at'', JStr ''2024-03-01T00:00:00Z'')]"
  have m: "map_of ?kvs ''person_name'' = Some JNull" by simp
  have "list_evaluations no_coercion ([january] @ [june, undated]) = Inr expected_order"
    by code_simp
  with null_name_omitted [OF m, of no_coercion "''x_52_f.json''" "[january]" "[june, undated]"] m
  show ?thesis by simp
qed

end
